theory Spec2Isabelle
  imports Main "HOL-Library.Word" "HOL-Library.Sublist"
begin

section \<open>Go values used by the VSS code\<close>

text \<open>
  A Go string is a sequence of bytes: \<^typ>\<open>string\<close>. The backslash has no literal
  form inside a HOL string, so it is a named character.
\<close>

definition backslash :: char where
  "backslash = CHR 0x5C"

text \<open>The extended-length-path prefix, backslash backslash question-mark backslash.\<close>

definition long_path_prefix :: string where
  "long_path_prefix = [backslash, backslash, CHR ''?'', backslash]"

text \<open>\<^verbatim>\<open>strings.HasPrefix\<close> and \<^verbatim>\<open>strings.TrimPrefix\<close> of the Go library.\<close>

definition HasPrefix :: "string \<Rightarrow> string \<Rightarrow> bool" where
  "HasPrefix s p = (length p \<le> length s \<and> take (length p) s = p)"

definition TrimPrefix :: "string \<Rightarrow> string \<Rightarrow> string" where
  "TrimPrefix s p = (if HasPrefix s p then drop (length p) s else s)"

text \<open>
  A run-time panic of Go. The slice expression \<^verbatim>\<open>s[:n]\<close> panics when \<^verbatim>\<open>n\<close> exceeds the
  length of the string.
\<close>

datatype go_panic = SliceBoundsOutOfRange nat nat

definition slice_to :: "string \<Rightarrow> nat \<Rightarrow> go_panic + string" where
  "slice_to s n = (if n \<le> length s then Inr (take n s) else Inl (SliceBoundsOutOfRange n (length s)))"

text \<open>
  Go's \<^verbatim>\<open>uint\<close> (and \<^verbatim>\<open>uintptr\<close>) on the amd64 build: 64 bits. \<^verbatim>\<open>HRESULT\<close> is declared
  as \<^verbatim>\<open>uint\<close>. \<^verbatim>\<open>ole.GUID\<close> is 128 bits of data.
\<close>

type_synonym uint = "64 word"
type_synonym HRESULT = uint
type_synonym GUID = "128 word"

definition S_OK :: HRESULT where "S_OK = 0x00000000"
definition E_ACCESSDENIED :: HRESULT where "E_ACCESSDENIED = 0x80070005"
definition E_OUTOFMEMORY :: HRESULT where "E_OUTOFMEMORY = 0x8007000E"
definition E_INVALIDARG :: HRESULT where "E_INVALIDARG = 0x80070057"
definition VSS_E_BAD_STATE :: HRESULT where "VSS_E_BAD_STATE = 0x80042301"
definition VSS_E_LEGACY_PROVIDER :: HRESULT where "VSS_E_LEGACY_PROVIDER = 0x800423F7"
definition VSS_E_RESYNC_IN_PROGRESS :: HRESULT where "VSS_E_RESYNC_IN_PROGRESS = 0x800423FF"
definition VSS_E_SNAPSHOT_NOT_IN_SET :: HRESULT where "VSS_E_SNAPSHOT_NOT_IN_SET = 0x8004232B"
definition VSS_E_MAXIMUM_NUMBER_OF_VOLUMES_REACHED :: HRESULT where
  "VSS_E_MAXIMUM_NUMBER_OF_VOLUMES_REACHED = 0x80042312"
definition VSS_E_MAXIMUM_NUMBER_OF_SNAPSHOTS_REACHED :: HRESULT where
  "VSS_E_MAXIMUM_NUMBER_OF_SNAPSHOTS_REACHED = 0x80042317"
definition VSS_E_NESTED_VOLUME_LIMIT :: HRESULT where "VSS_E_NESTED_VOLUME_LIMIT = 0x8004232C"
definition VSS_E_OBJECT_NOT_FOUND :: HRESULT where "VSS_E_OBJECT_NOT_FOUND = 0x80042308"
definition VSS_E_PROVIDER_NOT_REGISTERED :: HRESULT where
  "VSS_E_PROVIDER_NOT_REGISTERED = 0x80042304"
definition VSS_E_PROVIDER_VETO :: HRESULT where "VSS_E_PROVIDER_VETO = 0x80042306"
definition VSS_E_VOLUME_NOT_SUPPORTED :: HRESULT where "VSS_E_VOLUME_NOT_SUPPORTED = 0x8004230C"
definition VSS_E_VOLUME_NOT_SUPPORTED_BY_PROVIDER :: HRESULT where
  "VSS_E_VOLUME_NOT_SUPPORTED_BY_PROVIDER = 0x8004230E"
definition VSS_E_UNEXPECTED :: HRESULT where "VSS_E_UNEXPECTED = 0x80042302"
definition VSS_E_UNEXPECTED_PROVIDER_ERROR :: HRESULT where
  "VSS_E_UNEXPECTED_PROVIDER_ERROR = 0x8004230F"
definition VSS_E_UNSELECTED_VOLUME :: HRESULT where "VSS_E_UNSELECTED_VOLUME = 0x8004232A"
definition VSS_E_CANNOT_REVERT_DISKID :: HRESULT where "VSS_E_CANNOT_REVERT_DISKID = 0x800423FE"
definition VSS_E_INVALID_XML_DOCUMENT :: HRESULT where "VSS_E_INVALID_XML_DOCUMENT = 0x80042311"
definition VSS_E_OBJECT_ALREADY_EXISTS :: HRESULT where "VSS_E_OBJECT_ALREADY_EXISTS = 0x8004230D"
definition FSRVP_E_SHADOW_COPY_SET_IN_PROGRESS :: HRESULT where
  "FSRVP_E_SHADOW_COPY_SET_IN_PROGRESS = 0x80042316"

text \<open>The table \<^verbatim>\<open>hresultToString\<close>, in the order of the source, and \<^verbatim>\<open>HRESULT.Str\<close>.\<close>

definition hresultToString :: "(HRESULT \<times> string) list" where
  "hresultToString =
    [(S_OK, ''S_OK''),
     (E_ACCESSDENIED, ''E_ACCESSDENIED''),
     (E_OUTOFMEMORY, ''E_OUTOFMEMORY''),
     (E_INVALIDARG, ''E_INVALIDARG''),
     (VSS_E_BAD_STATE, ''VSS_E_BAD_STATE''),
     (VSS_E_LEGACY_PROVIDER, ''VSS_E_LEGACY_PROVIDER''),
     (VSS_E_RESYNC_IN_PROGRESS, ''VSS_E_RESYNC_IN_PROGRESS''),
     (VSS_E_SNAPSHOT_NOT_IN_SET, ''VSS_E_SNAPSHOT_NOT_IN_SET''),
     (VSS_E_MAXIMUM_NUMBER_OF_VOLUMES_REACHED, ''VSS_E_MAXIMUM_NUMBER_OF_VOLUMES_REACHED''),
     (VSS_E_MAXIMUM_NUMBER_OF_SNAPSHOTS_REACHED, ''VSS_E_MAXIMUM_NUMBER_OF_SNAPSHOTS_REACHED''),
     (VSS_E_NESTED_VOLUME_LIMIT, ''VSS_E_NESTED_VOLUME_LIMIT''),
     (VSS_E_OBJECT_NOT_FOUND, ''VSS_E_OBJECT_NOT_FOUND''),
     (VSS_E_PROVIDER_NOT_REGISTERED, ''VSS_E_PROVIDER_NOT_REGISTERED''),
     (VSS_E_PROVIDER_VETO, ''VSS_E_PROVIDER_VETO''),
     (VSS_E_VOLUME_NOT_SUPPORTED, ''VSS_E_VOLUME_NOT_SUPPORTED''),
     (VSS_E_VOLUME_NOT_SUPPORTED_BY_PROVIDER, ''VSS_E_VOLUME_NOT_SUPPORTED_BY_PROVIDER''),
     (VSS_E_UNEXPECTED, ''VSS_E_UNEXPECTED''),
     (VSS_E_UNEXPECTED_PROVIDER_ERROR, ''VSS_E_UNEXPECTED_PROVIDER_ERROR''),
     (VSS_E_UNSELECTED_VOLUME, ''VSS_E_UNSELECTED_VOLUME''),
     (VSS_E_CANNOT_REVERT_DISKID, ''VSS_E_CANNOT_REVERT_DISKID''),
     (VSS_E_INVALID_XML_DOCUMENT, ''VSS_E_INVALID_XML_DOCUMENT''),
     (VSS_E_OBJECT_ALREADY_EXISTS, ''VSS_E_OBJECT_ALREADY_EXISTS''),
     (FSRVP_E_SHADOW_COPY_SET_IN_PROGRESS, ''FSRVP_E_SHADOW_COPY_SET_IN_PROGRESS'')]"

definition Str :: "HRESULT \<Rightarrow> string" where
  "Str h = (case map_of hresultToString h of Some i \<Rightarrow> i | None \<Rightarrow> ''UNKNOWN'')"

datatype VssContext =
    VSS_CTX_BACKUP
  | VSS_CTX_FILE_SHARE_BACKUP
  | VSS_CTX_NAS_ROLLBACK
  | VSS_CTX_APP_ROLLBACK
  | VSS_CTX_CLIENT_ACCESSIBLE
  | VSS_CTX_CLIENT_ACCESSIBLE_WRITERS
  | VSS_CTX_ALL

datatype VssBackup =
    VSS_BT_UNDEFINED
  | VSS_BT_FULL
  | VSS_BT_INCREMENTAL
  | VSS_BT_DIFFERENTIAL
  | VSS_BT_LOG
  | VSS_BT_COPY
  | VSS_BT_OTHER

definition VSS_S_ASYNC_FINISHED :: "32 word" where
  "VSS_S_ASYNC_FINISHED = 0x0004230A"

section \<open>Errors\<close>

text \<open>
  One constructor for each place where the code makes an error value; the arguments are
  the values the format string is filled with. \<open>ErrExternal\<close> is an error made by a
  library the code calls (loading the DLL, finding a procedure, \<^verbatim>\<open>ole.CoInitialize\<close>,
  \<^verbatim>\<open>windows.GetCurrentProcess\<close>, \<^verbatim>\<open>windows.IsWow64Process\<close>), with its text.
\<close>

datatype vss_error =
    ErrExternal string
  | ErrDetectArchitecture string
  | ErrArchitecture string
  | ErrAccessDenied uint
  | ErrCreateInstance uint
  | ErrQueryInterface uint
  | ErrReturned string HRESULT
  | ErrReturnedNil string
  | ErrWaitTimedOut int
  | ErrVolumeNotSupported string
  | ErrDeleteSnapshot HRESULT
  | ErrOnlyOnWindows

text \<open>The verbs \<^verbatim>\<open>%d\<close> (decimal) and \<^verbatim>\<open>%#x\<close> (hexadecimal with the 0x prefix) of \<^verbatim>\<open>fmt\<close>.\<close>

fun digits :: "nat \<Rightarrow> nat \<Rightarrow> string" where
  "digits b n =
     (if b < 2 \<or> n < b then [''0123456789abcdef'' ! n]
      else digits b (n div b) @ [''0123456789abcdef'' ! (n mod b)])"

definition fmt_d :: "int \<Rightarrow> string" where
  "fmt_d i = (if i < 0 then ''-'' @ digits 10 (nat (- i)) else digits 10 (nat i))"

definition fmt_x :: "uint \<Rightarrow> string" where
  "fmt_x w = ''0x'' @ digits 16 (unat w)"

text \<open>The text of each error (\<^verbatim>\<open>err.Error()\<close>), from the format strings of the source.\<close>

fun error_message :: "vss_error \<Rightarrow> string" where
  "error_message (ErrExternal s) = s"
| "error_message (ErrDetectArchitecture s) =
     ''VSS error: Failed to detect windows architecture: '' @ s"
| "error_message (ErrArchitecture arch) =
     ''VSS error: executables compiled for '' @ arch @ '' can't use VSS on other ''
       @ ''architectures. Please use an executable compiled for your platform.''"
| "error_message (ErrAccessDenied r) =
     ''VSS error: '' @ Str r @ '' ('' @ fmt_x r @ '') The caller does not have sufficient backup ''
       @ ''privileges or is not an administrator.''"
| "error_message (ErrCreateInstance r) =
     ''VSS error: Failed to create VSS instance:  '' @ Str r @ '' ('' @ fmt_x r @ '')''"
| "error_message (ErrQueryInterface r) = ''QueryInterface failed: '' @ fmt_x r"
| "error_message (ErrReturned name hRes) =
     ''VSS error: '' @ name @ ''() returned '' @ Str hRes @ '' ('' @ fmt_x hRes @ '')''"
| "error_message (ErrReturnedNil name) = ''VSS error: '' @ name @ ''() returned nil''"
| "error_message (ErrWaitTimedOut millis) =
     ''VSS error: Wait timed out. Waited for more than '' @ fmt_d millis @ '' ms.''"
| "error_message (ErrVolumeNotSupported volume) =
     ''VSS error: Snapshots are not supported for volume '' @ volume"
| "error_message (ErrDeleteSnapshot hResult) =
     ''VSS error: Failed to delete snapshot:  '' @ Str hResult @ '' ('' @ fmt_x hResult @ '')''"
| "error_message ErrOnlyOnWindows = ''VSS snapshots are only supported on windows''"

section \<open>Waiting for an asynchronous operation\<close>

text \<open>
  One round of the loop of \<^verbatim>\<open>WaitUntilAsyncFinished\<close> asks the outside world up to three
  things: the result of \<^verbatim>\<open>Wait(100)\<close>, the result and the state of \<^verbatim>\<open>QueryStatus()\<close>, and
  the clock \<^verbatim>\<open>time.Now().Unix()\<close> (whole seconds). A \<open>poll\<close> holds the answers of one
  round; an answer the round does not ask for is ignored.
\<close>

record poll =
  wait_result :: HRESULT
  query_result :: HRESULT
  query_state :: "32 word"
  now_unix :: int

text \<open>
  An \<^verbatim>\<open>IVSSAsync\<close> handle, as the waiting code sees it: the clock when the wait starts and
  the polls that follow.
\<close>

record IVSSAsync =
  start_unix :: int
  polls :: "poll list"

text \<open>
  The loop of \<^verbatim>\<open>WaitUntilAsyncFinished\<close>, run on the polls observed so far. \<open>None\<close>: the
  loop has consumed every poll and is still running. \<open>Some None\<close>: it returned \<^verbatim>\<open>nil\<close>.
  \<open>Some (Some e)\<close>: it returned the error \<open>e\<close>.
\<close>

fun wait_loop :: "int \<Rightarrow> int \<Rightarrow> poll list \<Rightarrow> vss_error option option" where
  "wait_loop start millis [] = None"
| "wait_loop start millis (p # ps) =
     (if wait_result p \<noteq> S_OK then wait_loop start millis ps
      else if query_result p \<noteq> S_OK then wait_loop start millis ps
      else if query_state p = VSS_S_ASYNC_FINISHED then Some None
      else if now_unix p - start > millis then Some (Some (ErrWaitTimedOut millis))
      else wait_loop start millis ps)"

definition WaitUntilAsyncFinished :: "IVSSAsync \<Rightarrow> int \<Rightarrow> vss_error option option" where
  "WaitUntilAsyncFinished vssAsync millis = wait_loop (start_unix vssAsync) millis (polls vssAsync)"

section \<open>The snapshot and the native calls\<close>

text \<open>
  \<^verbatim>\<open>VssSnapshotProperties\<close>, field by field. A field that points to UTF-16 text holds the
  text it points to. (The fields \<^verbatim>\<open>snapshotID\<close> and \<^verbatim>\<open>snapshotSetID\<close> carry the suffix
  \<open>_p\<close>: the names are used again by the snapshot and by \<^verbatim>\<open>NewVssSnapshot\<close>.)
\<close>

record VssSnapshotProperties =
  snapshotID_p :: GUID
  snapshotSetID_p :: GUID
  snapshotsCount :: "32 word"
  snapshotDeviceObject :: string
  originalVolumeName :: string
  originatingMachine :: string
  serviceMachine :: string
  exposedName :: string
  exposedPath :: string
  providerId :: GUID
  snapshotAttributes :: "32 word"
  creationTimestamp :: "64 word"
  status :: uint

text \<open>
  \<^verbatim>\<open>VssSnapshot\<close>. The pointer \<^verbatim>\<open>iVssBackupComponents\<close> is \<open>None\<close> when nil, otherwise the
  address of the session object.
\<close>

record VssSnapshot =
  iVssBackupComponents :: "nat option"
  snapshotID :: GUID
  snapshotProperties :: VssSnapshotProperties
  timeoutInMillis :: int

text \<open>The zero values \<^verbatim>\<open>VssSnapshotProperties{}\<close> and \<^verbatim>\<open>VssSnapshot{}\<close>.\<close>

definition VssSnapshotProperties_zero :: VssSnapshotProperties where
  "VssSnapshotProperties_zero =
     \<lparr>snapshotID_p = 0, snapshotSetID_p = 0, snapshotsCount = 0, snapshotDeviceObject = [],
      originalVolumeName = [], originatingMachine = [], serviceMachine = [], exposedName = [],
      exposedPath = [], providerId = 0, snapshotAttributes = 0, creationTimestamp = 0,
      status = 0\<rparr>"

definition VssSnapshot_zero :: VssSnapshot where
  "VssSnapshot_zero =
     \<lparr>iVssBackupComponents = None, snapshotID = 0,
      snapshotProperties = VssSnapshotProperties_zero, timeoutInMillis = 0\<rparr>"

definition GetSnapshotDeviceObject :: "VssSnapshot \<Rightarrow> string" where
  "GetSnapshotDeviceObject p = snapshotDeviceObject (snapshotProperties p)"

text \<open>
  What the native side answers when an asynchronous operation is started: the result of
  the call itself, and the result and the interface pointer of the \<^verbatim>\<open>QueryInterface\<close> call
  that follows a successful start (the pointer may be nil).
\<close>

record async_call =
  native_result :: uint
  qi_result :: uint
  qi_ivss :: "IVSSAsync option"

text \<open>
  The answers of the outside world during one run of the code: the Go runtime, the
  Windows libraries and the session object. A call with arguments is answered by a
  function of the arguments. Pointers that the native side hands out with a success
  result are valid, except where the code itself tests for nil.
\<close>

record vss_env =
  GOARCH :: string
  GetCurrentProcess_err :: "string option"
  IsWow64Process_res :: "string + bool"
  Load_err :: "string option"
  Find_err :: "string \<Rightarrow> string option"
  CoInitialize_err :: "string option"
  CreateVssBackupComponents_res :: uint
  QueryInterface_IVSS_res :: uint
  session :: nat
  InitializeForBackup_res :: HRESULT
  SetContext_res :: "VssContext \<Rightarrow> HRESULT"
  SetBackupState_res :: "bool \<Rightarrow> bool \<Rightarrow> VssBackup \<Rightarrow> bool \<Rightarrow> HRESULT"
  GatherWriterMetadata_res :: async_call
  IsVolumeSupported_res :: "string \<Rightarrow> HRESULT \<times> bool"
  StartSnapshotSet_res :: "HRESULT \<times> GUID"
  AddToSnapshotSet_res :: "string \<Rightarrow> GUID \<Rightarrow> HRESULT"
  PrepareForBackup_res :: async_call
  DoSnapshotSet_res :: async_call
  GetSnapshotProperties_res :: "GUID \<Rightarrow> HRESULT \<times> VssSnapshotProperties"
  BackupComplete_res :: async_call
  DeleteSnapshots_res :: "GUID \<Rightarrow> HRESULT \<times> 32 word \<times> GUID"

text \<open>\<^verbatim>\<open>queryInterface\<close>, on the result and the pointer of the native \<^verbatim>\<open>QueryInterface\<close>.\<close>

definition queryInterface :: "uint \<Rightarrow> 'p \<Rightarrow> vss_error + 'p" where
  "queryInterface result ivss = (if result \<noteq> 0 then Inl (ErrQueryInterface result) else Inr ivss)"

definition handleAsyncReturnValue :: "async_call \<Rightarrow> HRESULT \<times> IVSSAsync option" where
  "handleAsyncReturnValue c =
     (let hRes = native_result c in
      if hRes \<noteq> S_OK then (hRes, None)
      else (case queryInterface (qi_result c) (qi_ivss c) of
              Inl err \<Rightarrow> (hRes, None)
            | Inr iVssAsync \<Rightarrow> (hRes, iVssAsync)))"

definition GatherWriterMetadata :: "vss_env \<Rightarrow> HRESULT \<times> IVSSAsync option" where
  "GatherWriterMetadata env = handleAsyncReturnValue (GatherWriterMetadata_res env)"

definition PrepareForBackup :: "vss_env \<Rightarrow> HRESULT \<times> IVSSAsync option" where
  "PrepareForBackup env = handleAsyncReturnValue (PrepareForBackup_res env)"

definition DoSnapshotSet :: "vss_env \<Rightarrow> HRESULT \<times> IVSSAsync option" where
  "DoSnapshotSet env = handleAsyncReturnValue (DoSnapshotSet_res env)"

definition BackupComplete :: "vss_env \<Rightarrow> HRESULT \<times> IVSSAsync option" where
  "BackupComplete env = handleAsyncReturnValue (BackupComplete_res env)"

text \<open>
  \<^verbatim>\<open>handleAsyncFunctionCall\<close>, on the value its argument \<^verbatim>\<open>function\<close> returns when called.
  \<open>None\<close>: the wait is still running on the polls observed. (The parameter
  \<^verbatim>\<open>timeoutInMillis\<close> is written \<open>millis\<close>, the name being taken by the field of the
  snapshot.)
\<close>

definition handleAsyncFunctionCall ::
  "HRESULT \<times> IVSSAsync option \<Rightarrow> string \<Rightarrow> int \<Rightarrow> vss_error option option" where
  "handleAsyncFunctionCall function name millis =
     (case function of (hRes, iVssAsync) \<Rightarrow>
        if hRes \<noteq> S_OK then Some (Some (ErrReturned name hRes))
        else (case iVssAsync of
                None \<Rightarrow> Some (Some (ErrReturnedNil name))
              | Some h \<Rightarrow>
                  (case WaitUntilAsyncFinished h millis of
                     None \<Rightarrow> None
                   | Some (Some err) \<Rightarrow> Some (Some err)
                   | Some None \<Rightarrow> Some None)))"

definition findVssProc :: "vss_env \<Rightarrow> string \<Rightarrow> vss_error + string" where
  "findVssProc env procName =
     (case Load_err env of
        Some err \<Rightarrow> Inl (ErrExternal err)
      | None \<Rightarrow>
          (case Find_err env procName of
             Some err \<Rightarrow> Inl (ErrExternal err)
           | None \<Rightarrow> Inr procName))"

definition loadIVssBackupComponentsConstructor :: "vss_env \<Rightarrow> vss_error + string" where
  "loadIVssBackupComponentsConstructor env =
     (let createInstanceName =
            (if GOARCH env = ''386''
             then ''?CreateVssBackupComponents@@YGJPAPAVIVssBackupComponents@@@Z''
             else ''?CreateVssBackupComponents@@YAJPEAPEAVIVssBackupComponents@@@Z'')
      in findVssProc env createInstanceName)"

definition isRunningOn64BitWindows :: "vss_env \<Rightarrow> vss_error + bool" where
  "isRunningOn64BitWindows env =
     (if GOARCH env = ''amd64'' then Inr True
      else (case GetCurrentProcess_err env of
              Some err \<Rightarrow> Inl (ErrExternal err)
            | None \<Rightarrow>
                (case IsWow64Process_res env of
                   Inl err \<Rightarrow> Inl (ErrExternal err)
                 | Inr isWow64 \<Rightarrow> Inr isWow64)))"

text \<open>
  The calls on the native session that the code makes, with their arguments. A run of
  \<^verbatim>\<open>NewVssSnapshot\<close> or \<^verbatim>\<open>Delete\<close> is modelled with the list of the calls it made, in
  order, beside its result.
\<close>

datatype vss_call =
    CallCreateVssBackupComponents
  | CallQueryInterface
  | CallInitializeForBackup
  | CallSetContext VssContext
  | CallSetBackupState bool bool VssBackup bool
  | CallGatherWriterMetadata
  | CallIsVolumeSupported string
  | CallStartSnapshotSet
  | CallAddToSnapshotSet string GUID
  | CallPrepareForBackup
  | CallDoSnapshotSet
  | CallGetSnapshotProperties GUID
  | CallVssFreeSnapshotProperties
  | CallBackupComplete
  | CallDeleteSnapshots GUID
  | CallRelease nat

type_synonym 'a run = "vss_call list \<times> 'a option"

text \<open>\<open>returns r\<close>: the function returns \<open>r\<close>, making no further call.\<close>

definition returns :: "'a \<Rightarrow> 'a run" where
  "returns r = ([], Some r)"

text \<open>\<open>blocked\<close>: the function is still inside a wait, making no further call.\<close>

definition blocked :: "'a run" where
  "blocked = ([], None)"

text \<open>\<open>logged c r\<close>: the call \<open>c\<close> is made, then the run \<open>r\<close> follows.\<close>

definition logged :: "vss_call \<Rightarrow> 'a run \<Rightarrow> 'a run" where
  "logged c r = (c # fst r, snd r)"

section \<open>Creating and deleting a snapshot\<close>

text \<open>A return of \<^verbatim>\<open>NewVssSnapshot\<close> with an error: \<^verbatim>\<open>return VssSnapshot{}, err\<close>.\<close>

definition fail :: "vss_error \<Rightarrow> (VssSnapshot \<times> vss_error option) run" where
  "fail err = returns (VssSnapshot_zero, Some err)"

text \<open>
  \<^verbatim>\<open>NewVssSnapshot\<close>, statement by statement. The run is \<open>(calls, None)\<close> when the code is
  still inside the wait of an asynchronous step, and \<open>(calls, Some (snapshot, err))\<close> when
  it returned.
\<close>

definition NewVssSnapshot ::
  "vss_env \<Rightarrow> string \<Rightarrow> uint \<Rightarrow> (VssSnapshot \<times> vss_error option) run" where
  "NewVssSnapshot env volume timeoutInSeconds =
     (case isRunningOn64BitWindows env of
        Inl err \<Rightarrow> fail (ErrDetectArchitecture (error_message err))
      | Inr is64Bit \<Rightarrow>
     if (is64Bit \<and> GOARCH env \<noteq> ''amd64'') \<or> (\<not> is64Bit \<and> GOARCH env \<noteq> ''386'')
     then fail (ErrArchitecture (GOARCH env))
     else
     let millis = sint (timeoutInSeconds * 1000) in
     (case loadIVssBackupComponentsConstructor env of
        Inl err \<Rightarrow> fail err
      | Inr vssInstance \<Rightarrow>
     (case CoInitialize_err env of
        Some err \<Rightarrow> fail (ErrExternal err)
      | None \<Rightarrow>
     logged CallCreateVssBackupComponents
     (let result = CreateVssBackupComponents_res env in
      if result \<noteq> S_OK
      then (if result = E_ACCESSDENIED then fail (ErrAccessDenied result)
            else fail (ErrCreateInstance result))
      else
     logged CallQueryInterface
     (case queryInterface (QueryInterface_IVSS_res env) (session env) of
        Inl err \<Rightarrow> fail err
      | Inr comInterface \<Rightarrow>
     logged CallInitializeForBackup
     (let hRes = InitializeForBackup_res env in
      if hRes \<noteq> S_OK then fail (ErrReturned ''InitializeForBackup'' hRes)
      else
     logged (CallSetContext VSS_CTX_BACKUP)
     (let hRes = SetContext_res env VSS_CTX_BACKUP in
      if hRes \<noteq> S_OK then fail (ErrReturned ''SetContext'' hRes)
      else
     logged (CallSetBackupState False False VSS_BT_COPY False)
     (let hRes = SetBackupState_res env False False VSS_BT_COPY False in
      if hRes \<noteq> S_OK then fail (ErrReturned ''SetBackupState'' hRes)
      else
     logged CallGatherWriterMetadata
     (case handleAsyncFunctionCall (GatherWriterMetadata env) ''GatherWriterMetadata'' millis of
        None \<Rightarrow> blocked
      | Some (Some err) \<Rightarrow> fail err
      | Some None \<Rightarrow>
     logged (CallIsVolumeSupported volume)
     (case IsVolumeSupported_res env volume of (hRes, isSupported) \<Rightarrow>
      if hRes \<noteq> S_OK then fail (ErrReturned ''IsVolumeSupported'' hRes)
      else if \<not> isSupported then fail (ErrVolumeNotSupported volume)
      else
     logged CallStartSnapshotSet
     (case StartSnapshotSet_res env of (hRes, snapshotSetID) \<Rightarrow>
      if hRes \<noteq> S_OK then fail (ErrReturned ''StartSnapshotSet'' hRes)
      else
     logged (CallAddToSnapshotSet volume snapshotSetID)
     (let hRes = AddToSnapshotSet_res env volume snapshotSetID in
      if hRes \<noteq> S_OK then fail (ErrReturned ''AddToSnapshotSet'' hRes)
      else
     logged CallPrepareForBackup
     (case handleAsyncFunctionCall (PrepareForBackup env) ''PrepareForBackup'' millis of
        None \<Rightarrow> blocked
      | Some (Some err) \<Rightarrow> fail err
      | Some None \<Rightarrow>
     logged CallDoSnapshotSet
     (case handleAsyncFunctionCall (DoSnapshotSet env) ''DoSnapshotSet'' millis of
        None \<Rightarrow> blocked
      | Some (Some err) \<Rightarrow> fail err
      | Some None \<Rightarrow>
     logged (CallGetSnapshotProperties snapshotSetID)
     (case GetSnapshotProperties_res env snapshotSetID of (hRes, snapshotProperties') \<Rightarrow>
      if hRes \<noteq> S_OK then fail (ErrReturned ''GetSnapshotProperties'' hRes)
      else
     returns
       (\<lparr>iVssBackupComponents = Some comInterface, snapshotID = snapshotSetID,
         snapshotProperties = snapshotProperties', timeoutInMillis = millis\<rparr>,
        None))))))))))))))))"

text \<open>\<^verbatim>\<open>vssFreeSnapshotProperties\<close>: the native routine is called only when it is found.\<close>

definition vssFreeSnapshotProperties :: "vss_env \<Rightarrow> VssSnapshotProperties \<Rightarrow> vss_error option run" where
  "vssFreeSnapshotProperties env properties =
     (case findVssProc env ''VssFreeSnapshotProperties'' of
        Inl err \<Rightarrow> returns (Some err)
      | Inr proc \<Rightarrow> logged CallVssFreeSnapshotProperties (returns None))"

text \<open>
  \<^verbatim>\<open>VssSnapshot.Delete\<close>. The deferred \<^verbatim>\<open>Release\<close> of the session runs when the function
  returns, so it is the last call of the run.
\<close>

definition Delete :: "vss_env \<Rightarrow> VssSnapshot \<Rightarrow> vss_error option run" where
  "Delete env p =
     (case vssFreeSnapshotProperties env (snapshotProperties p) of
        (calls, Some (Some err)) \<Rightarrow> (calls, Some (Some err))
      | (calls, None) \<Rightarrow> (calls, None)
      | (calls, Some None) \<Rightarrow>
          (case iVssBackupComponents p of
             None \<Rightarrow> (calls, Some None)
           | Some components \<Rightarrow>
               (case handleAsyncFunctionCall (BackupComplete env) ''BackupComplete''
                       (timeoutInMillis p) of
                  None \<Rightarrow> (calls @ [CallBackupComplete], None)
                | Some e \<Rightarrow>
                    (let err = e;
                         hResult = fst (DeleteSnapshots_res env (snapshotID p));
                         err = (if hResult \<noteq> S_OK then Some (ErrDeleteSnapshot hResult) else err)
                     in (calls @ [CallBackupComplete, CallDeleteSnapshots (snapshotID p),
                                  CallRelease components],
                         Some err)))))"

section \<open>The stub of the other platforms\<close>

text \<open>
  The file built when the target is not Windows: the snapshot is the empty struct, and
  creating one fails with one fixed error.
\<close>

type_synonym VssSnapshot_stub = unit

definition NewVssSnapshot_stub :: "string \<Rightarrow> uint \<Rightarrow> VssSnapshot_stub \<times> vss_error option" where
  "NewVssSnapshot_stub volume timeoutInSeconds = ((), Some ErrOnlyOnWindows)"

definition Delete_stub :: "VssSnapshot_stub \<Rightarrow> vss_error option" where
  "Delete_stub p = None"

definition GetSnapshotDeviceObject_stub :: "VssSnapshot_stub \<Rightarrow> string" where
  "GetSnapshotDeviceObject_stub p = []"

section \<open>The file system that resolves paths into snapshots\<close>

text \<open>
  How a call of the resolver can end: it returns, it panics, or it is still inside a wait
  of the snapshot creation.
\<close>

datatype 'a outcome = Returns 'a | Panics go_panic | Blocks

text \<open>
  What \<^verbatim>\<open>LocalVss\<close> is built on and what this part of the repository does not contain:
  \<^verbatim>\<open>fixpath\<close> (the normal form of a path), \<^verbatim>\<open>Join\<close> of the wrapped file system, and
  \<^verbatim>\<open>GetSnapshotDeviceObject\<close> of the platform's snapshot type \<open>'snap\<close>.
\<close>

record 'snap platform =
  fixpath :: "string \<Rightarrow> string"
  Join :: "string \<Rightarrow> string \<Rightarrow> string"
  DeviceObject :: "'snap \<Rightarrow> string"

text \<open>
  What \<^verbatim>\<open>NewVssSnapshot(vssVolume, 120)\<close> does when the resolver calls it: \<open>None\<close> when it
  does not return, otherwise the pair it returns.
\<close>

type_synonym 'snap creation = "string \<Rightarrow> uint \<Rightarrow> ('snap \<times> vss_error option) option"

text \<open>
  What a call of the resolver does that can be observed from outside: the messages to the
  three handlers, with their arguments, and the calls that create or delete a snapshot.
\<close>

datatype event =
    MsgCreating string
  | CallNewVssSnapshot string uint
  | MsgErrorCreate string vss_error
  | MsgVerboseCreated string
  | CallDelete string
  | MsgErrorDelete vss_error

text \<open>
  \<^verbatim>\<open>snapshotPath\<close>. The map \<^verbatim>\<open>fs.snapshots\<close> is passed in and returned. The slice
  \<^verbatim>\<open>fixPath[:2]\<close> comes before the lock is taken.
\<close>

definition snapshotPath ::
  "'snap platform \<Rightarrow> 'snap creation \<Rightarrow> (string \<rightharpoonup> 'snap) \<Rightarrow> string \<Rightarrow>
     (event list \<times> string \<times> (string \<rightharpoonup> 'snap)) outcome" where
  "snapshotPath fs create snapshots path =
     (let fixPath = TrimPrefix (fixpath fs path) long_path_prefix in
      case slice_to fixPath 2 of
        Inl p \<Rightarrow> Panics p
      | Inr volumeName \<Rightarrow>
          (case (if snapshots volumeName = None
                 then (let vssVolume = volumeName @ [backslash] in
                       case create vssVolume 120 of
                         None \<Rightarrow> None
                       | Some (snapshot, Some err) \<Rightarrow>
                           Some ([MsgCreating vssVolume, CallNewVssSnapshot vssVolume 120,
                                  MsgErrorCreate volumeName err],
                                 snapshots)
                       | Some (snapshot, None) \<Rightarrow>
                           Some ([MsgCreating vssVolume, CallNewVssSnapshot vssVolume 120,
                                  MsgVerboseCreated vssVolume],
                                 snapshots(volumeName \<mapsto> snapshot)))
                 else Some ([], snapshots)) of
             None \<Rightarrow> Blocks
           | Some (msgs, snapshots') \<Rightarrow>
               (case snapshots' volumeName of
                  Some snapshot \<Rightarrow>
                    Returns (msgs,
                             Join fs (DeviceObject fs snapshot) (TrimPrefix fixPath volumeName),
                             snapshots')
                | None \<Rightarrow> Returns (msgs, path, snapshots'))))"

text \<open>
  The read operations: each resolves its path and hands the result to the same operation
  of the wrapped file system, here the function \<open>wrapped\<close>.
\<close>

definition read_op ::
  "'snap platform \<Rightarrow> (string \<Rightarrow> 'r) \<Rightarrow> 'snap creation \<Rightarrow> (string \<rightharpoonup> 'snap) \<Rightarrow> string \<Rightarrow>
     (event list \<times> 'r \<times> (string \<rightharpoonup> 'snap)) outcome" where
  "read_op fs wrapped create snapshots name =
     (case snapshotPath fs create snapshots name of
        Returns (msgs, p, snapshots') \<Rightarrow> Returns (msgs, wrapped p, snapshots')
      | Panics e \<Rightarrow> Panics e
      | Blocks \<Rightarrow> Blocks)"

definition Open ::
  "'snap platform \<Rightarrow> (string \<Rightarrow> 'r) \<Rightarrow> 'snap creation \<Rightarrow> (string \<rightharpoonup> 'snap) \<Rightarrow> string \<Rightarrow>
     (event list \<times> 'r \<times> (string \<rightharpoonup> 'snap)) outcome" where
  "Open fs fsOpen create snapshots name = read_op fs fsOpen create snapshots name"

definition OpenFile ::
  "'snap platform \<Rightarrow> (string \<Rightarrow> int \<Rightarrow> 32 word \<Rightarrow> 'r) \<Rightarrow> 'snap creation \<Rightarrow> (string \<rightharpoonup> 'snap) \<Rightarrow>
     string \<Rightarrow> int \<Rightarrow> 32 word \<Rightarrow> (event list \<times> 'r \<times> (string \<rightharpoonup> 'snap)) outcome" where
  "OpenFile fs fsOpenFile create snapshots name flag perm =
     read_op fs (\<lambda>p. fsOpenFile p flag perm) create snapshots name"

definition Stat ::
  "'snap platform \<Rightarrow> (string \<Rightarrow> 'r) \<Rightarrow> 'snap creation \<Rightarrow> (string \<rightharpoonup> 'snap) \<Rightarrow> string \<Rightarrow>
     (event list \<times> 'r \<times> (string \<rightharpoonup> 'snap)) outcome" where
  "Stat fs fsStat create snapshots name = read_op fs fsStat create snapshots name"

definition Lstat ::
  "'snap platform \<Rightarrow> (string \<Rightarrow> 'r) \<Rightarrow> 'snap creation \<Rightarrow> (string \<rightharpoonup> 'snap) \<Rightarrow> string \<Rightarrow>
     (event list \<times> 'r \<times> (string \<rightharpoonup> 'snap)) outcome" where
  "Lstat fs fsLstat create snapshots name = read_op fs fsLstat create snapshots name"

text \<open>
  \<^verbatim>\<open>DeleteSnapshots\<close>. Go visits the entries of a map in an order of its choosing: the
  keys are visited in the order \<open>keys\<close>. \<open>delete\<close> is what \<^verbatim>\<open>snapshot.Delete()\<close> does
  (\<open>None\<close> when it does not return). The map is left as it is.
\<close>

fun delete_each ::
  "('snap \<Rightarrow> vss_error option option) \<Rightarrow> (string \<rightharpoonup> 'snap) \<Rightarrow> string list \<Rightarrow> event list option" where
  "delete_each delete snapshots [] = Some []"
| "delete_each delete snapshots (k # ks) =
     (case snapshots k of
        None \<Rightarrow> delete_each delete snapshots ks
      | Some snapshot \<Rightarrow>
          (case delete snapshot of
             None \<Rightarrow> None
           | Some err \<Rightarrow>
               (case delete_each delete snapshots ks of
                  None \<Rightarrow> None
                | Some msgs \<Rightarrow>
                    Some (CallDelete k # (case err of Some e \<Rightarrow> [MsgErrorDelete e] | None \<Rightarrow> [])
                            @ msgs))))"

definition DeleteSnapshots ::
  "('snap \<Rightarrow> vss_error option option) \<Rightarrow> string list \<Rightarrow> (string \<rightharpoonup> 'snap) \<Rightarrow>
     (event list \<times> (string \<rightharpoonup> 'snap)) outcome" where
  "DeleteSnapshots delete keys snapshots =
     (case delete_each delete snapshots keys of
        None \<Rightarrow> Blocks
      | Some msgs \<Rightarrow> Returns (msgs, snapshots))"

text \<open>A sequence of operations on one resolver, each with what the outside world does.\<close>

datatype 'snap resolver_op =
    OpResolve string "'snap creation"
  | OpDeleteSnapshots "'snap \<Rightarrow> vss_error option option" "string list"

fun resolver_step ::
  "'snap platform \<Rightarrow> (string \<rightharpoonup> 'snap) \<Rightarrow> 'snap resolver_op \<Rightarrow>
     (event list \<times> (string \<rightharpoonup> 'snap)) outcome" where
  "resolver_step fs snapshots (OpResolve path create) =
     (case snapshotPath fs create snapshots path of
        Returns (msgs, p, snapshots') \<Rightarrow> Returns (msgs, snapshots')
      | Panics e \<Rightarrow> Panics e
      | Blocks \<Rightarrow> Blocks)"
| "resolver_step fs snapshots (OpDeleteSnapshots delete keys) =
     DeleteSnapshots delete keys snapshots"

fun resolver_run ::
  "'snap platform \<Rightarrow> (string \<rightharpoonup> 'snap) \<Rightarrow> 'snap resolver_op list \<Rightarrow>
     (event list \<times> (string \<rightharpoonup> 'snap)) outcome" where
  "resolver_run fs snapshots [] = Returns ([], snapshots)"
| "resolver_run fs snapshots (x # xs) =
     (case resolver_step fs snapshots x of
        Returns (msgs, snapshots') \<Rightarrow>
          (case resolver_run fs snapshots' xs of
             Returns (msgs', snapshots'') \<Rightarrow> Returns (msgs @ msgs', snapshots'')
           | Panics e \<Rightarrow> Panics e
           | Blocks \<Rightarrow> Blocks)
      | Panics e \<Rightarrow> Panics e
      | Blocks \<Rightarrow> Blocks)"

section \<open>Notions used to state the properties\<close>

text \<open>
  A poll at which the status is read and is not finished, and a poll at which the status
  cannot be read (\<^verbatim>\<open>Wait\<close> or \<^verbatim>\<open>QueryStatus\<close> does not return \<^verbatim>\<open>S_OK\<close>).
\<close>

definition status_running :: "poll \<Rightarrow> bool" where
  "status_running p =
     (wait_result p = S_OK \<and> query_result p = S_OK \<and> query_state p \<noteq> VSS_S_ASYNC_FINISHED)"

definition status_unreadable :: "poll \<Rightarrow> bool" where
  "status_unreadable p = (wait_result p \<noteq> S_OK \<or> query_result p \<noteq> S_OK)"

text \<open>
  The normal form of a path that \<^verbatim>\<open>snapshotPath\<close> works on (\<^verbatim>\<open>fixPath\<close>): the result of
  \<^verbatim>\<open>fixpath\<close> without the extended-length-path prefix. Its first two bytes are the volume
  identifier.
\<close>

definition normal_form :: "'snap platform \<Rightarrow> string \<Rightarrow> string" where
  "normal_form fs path = TrimPrefix (fixpath fs path) long_path_prefix"

text \<open>
  \<open>creates v e\<close>: the event \<open>e\<close> is a call that creates a snapshot for the volume
  \<open>v\<close>. \<open>created v e\<close>: it is the message that the creation for \<open>v\<close> succeeded.
\<close>

fun creates :: "string \<Rightarrow> event \<Rightarrow> bool" where
  "creates v (CallNewVssSnapshot vssVolume t) = (vssVolume = v @ [backslash])"
| "creates v e = False"

fun created :: "string \<Rightarrow> event \<Rightarrow> bool" where
  "created v (MsgVerboseCreated vssVolume) = (vssVolume = v @ [backslash])"
| "created v e = False"

section \<open>Example environments\<close>

text \<open>
  Concrete polls, handles and a native side on which every call succeeds; the theorems
  below are instantiated on them.
\<close>

definition poll_running :: "int \<Rightarrow> poll" where
  "poll_running now = \<lparr>wait_result = S_OK, query_result = S_OK, query_state = 0, now_unix = now\<rparr>"

definition poll_unreadable :: "int \<Rightarrow> poll" where
  "poll_unreadable now =
     \<lparr>wait_result = VSS_E_UNEXPECTED, query_result = S_OK, query_state = 0, now_unix = now\<rparr>"

definition poll_finished :: "int \<Rightarrow> poll" where
  "poll_finished now =
     \<lparr>wait_result = S_OK, query_result = S_OK, query_state = VSS_S_ASYNC_FINISHED,
      now_unix = now\<rparr>"

definition async_ok :: async_call where
  "async_ok =
     \<lparr>native_result = S_OK, qi_result = 0,
      qi_ivss = Some \<lparr>start_unix = 1000, polls = [poll_finished 1001]\<rparr>\<rparr>"

definition async_slow :: "int list \<Rightarrow> async_call" where
  "async_slow clock =
     \<lparr>native_result = S_OK, qi_result = 0,
      qi_ivss = Some \<lparr>start_unix = 1000, polls = map poll_running clock\<rparr>\<rparr>"

definition volume_C :: string where
  "volume_C = ''C:'' @ [backslash]"

definition device_1 :: string where
  "device_1 = long_path_prefix @ ''SnapshotDevice'' @ [backslash] @ ''1''"

definition env_ok :: vss_env where
  "env_ok =
     \<lparr>GOARCH = ''amd64'', GetCurrentProcess_err = None, IsWow64Process_res = Inr False,
      Load_err = None, Find_err = (\<lambda>procName. None), CoInitialize_err = None,
      CreateVssBackupComponents_res = S_OK, QueryInterface_IVSS_res = 0, session = 1,
      InitializeForBackup_res = S_OK, SetContext_res = (\<lambda>c. S_OK),
      SetBackupState_res = (\<lambda>a b c d. S_OK), GatherWriterMetadata_res = async_ok,
      IsVolumeSupported_res = (\<lambda>v. (S_OK, True)), StartSnapshotSet_res = (S_OK, 7),
      AddToSnapshotSet_res = (\<lambda>v i. S_OK), PrepareForBackup_res = async_ok,
      DoSnapshotSet_res = async_ok,
      GetSnapshotProperties_res =
        (\<lambda>i. (S_OK, VssSnapshotProperties_zero\<lparr>snapshotDeviceObject := device_1\<rparr>)),
      BackupComplete_res = async_ok, DeleteSnapshots_res = (\<lambda>i. (S_OK, 1, 0))\<rparr>"

text \<open>
  Two platforms. On \<open>windows_fs\<close> the normal form of an absolute path is the path itself
  and the snapshots are those of Windows; on \<open>plain_fs\<close> \<^verbatim>\<open>fixpath\<close> returns its argument
  and the snapshots are the stubs. Both join two path elements by putting them together.
\<close>

definition windows_fs :: "VssSnapshot platform" where
  "windows_fs =
     \<lparr>fixpath = (\<lambda>p. long_path_prefix @ p), Join = (\<lambda>a b. a @ b),
      DeviceObject = GetSnapshotDeviceObject\<rparr>"

definition plain_fs :: "VssSnapshot_stub platform" where
  "plain_fs =
     \<lparr>fixpath = (\<lambda>p. p), Join = (\<lambda>a b. a @ b), DeviceObject = GetSnapshotDeviceObject_stub\<rparr>"

definition create_windows :: "vss_env \<Rightarrow> VssSnapshot creation" where
  "create_windows env = (\<lambda>volume timeoutInSeconds. snd (NewVssSnapshot env volume timeoutInSeconds))"

definition create_stub :: "VssSnapshot_stub creation" where
  "create_stub = (\<lambda>volume timeoutInSeconds. Some (NewVssSnapshot_stub volume timeoutInSeconds))"

definition snapshot_1 :: VssSnapshot where
  "snapshot_1 =
     \<lparr>iVssBackupComponents = Some 1, snapshotID = 7,
      snapshotProperties = VssSnapshotProperties_zero\<lparr>snapshotDeviceObject := device_1\<rparr>,
      timeoutInMillis = 120000\<rparr>"

definition path_file :: string where
  "path_file = ''C:'' @ [backslash] @ ''data'' @ [backslash] @ ''file.txt''"

text \<open>
  A native side that reports the volume as not supported, and a path on the volume D.
\<close>

definition env_unsupported :: vss_env where
  "env_unsupported = env_ok\<lparr>IsVolumeSupported_res := (\<lambda>v. (S_OK, False))\<rparr>"

definition path_D :: string where
  "path_D = ''D:'' @ [backslash] @ ''x''"

text \<open>
  A native side on which the routine that releases the properties cannot be found, one on
  which both the completion signal and the deletion fail, and a sequence of operations on
  a resolver.
\<close>

definition env_no_free :: vss_env where
  "env_no_free =
     env_ok\<lparr>Find_err :=
       (\<lambda>procName. if procName = ''VssFreeSnapshotProperties''
                    then Some ''procedure not found'' else None)\<rparr>"

definition env_delete_fails :: vss_env where
  "env_delete_fails =
     env_ok\<lparr>BackupComplete_res := async_ok\<lparr>native_result := VSS_E_BAD_STATE\<rparr>,
            DeleteSnapshots_res := (\<lambda>i. (VSS_E_OBJECT_NOT_FOUND, 0, 0))\<rparr>"

definition example_ops :: "VssSnapshot resolver_op list" where
  "example_ops =
     [OpResolve path_file (create_windows env_unsupported),
      OpResolve path_D (create_windows env_ok),
      OpDeleteSnapshots (\<lambda>p. snd (Delete env_ok p)) [''C:'', ''D:''],
      OpResolve path_file (create_windows env_unsupported)]"

section \<open>Properties of the asynchronous wait\<close>

lemma wait_loop_error:
  "wait_loop start millis ps = Some (Some e) \<Longrightarrow> e = ErrWaitTimedOut millis"
  by (induction ps) (simp_all split: if_splits)

lemma wait_loop_running:
  "list_all status_running ps \<Longrightarrow>
     wait_loop start millis ps =
       (if list_ex (\<lambda>p. now_unix p - start > millis) ps
        then Some (Some (ErrWaitTimedOut millis)) else None)"
  by (induction ps) (simp_all add: status_running_def)

lemma wait_loop_unreadable:
  "list_all status_unreadable ps \<Longrightarrow> wait_loop start millis ps = None"
  by (induction ps) (auto simp: status_unreadable_def)

lemma poll_unreadable_status: "status_unreadable (poll_unreadable now)"
  by (simp add: status_unreadable_def poll_unreadable_def VSS_E_UNEXPECTED_def S_OK_def)

lemma poll_running_status: "status_running (poll_running now)"
  by (simp add: status_running_def poll_running_def VSS_S_ASYNC_FINISHED_def)

text \<open>
  C8. The claim: a status query that fails is taken as "not yet finished", and the wait
  still ends within the timeout budget, also when the query fails forever. The code: a
  round whose \<^verbatim>\<open>Wait\<close> or \<^verbatim>\<open>QueryStatus\<close> fails goes straight to the next round and never
  looks at the clock. With a status query that fails at every poll the wait is still
  running after any number \<open>n\<close> of polls, here with a budget of 120 seconds and a clock
  that is decades past the start.
\<close>

theorem wait_blocks_while_status_unreadable:
  "WaitUntilAsyncFinished \<lparr>start_unix = 1000, polls = replicate n (poll_unreadable 1000000000)\<rparr>
      (sint ((120 :: uint) * 1000)) = None"
  unfolding WaitUntilAsyncFinished_def
  by (simp add: wait_loop_unreadable list_all_length poll_unreadable_status)

text \<open>
  C3, as amended. For an asynchronous step whose status is read at every poll and never
  is finished, the step ends only with the timeout error, which carries the budget and
  not the name of the step, and it ends so exactly when some poll finds the loop's test
  \<^verbatim>\<open>time.Now().Unix()-start > millis\<close> true; until then it keeps polling.
\<close>

theorem async_step_timeout:
  assumes "list_all status_running (polls h)"
  shows "handleAsyncFunctionCall (S_OK, Some h) name millis =
           (if list_ex (\<lambda>p. now_unix p - start_unix h > millis) (polls h)
            then Some (Some (ErrWaitTimedOut millis)) else None)"
proof -
  have "WaitUntilAsyncFinished h millis =
          (if list_ex (\<lambda>p. now_unix p - start_unix h > millis) (polls h)
           then Some (Some (ErrWaitTimedOut millis)) else None)"
    unfolding WaitUntilAsyncFinished_def by (rule wait_loop_running [OF assms])
  then show ?thesis
    by (simp add: handleAsyncFunctionCall_def)
qed

theorem async_step_timeout_witness:
  "list_all status_running (polls \<lparr>start_unix = 1000, polls = map poll_running [1060, 121001]\<rparr>) \<and>
   handleAsyncFunctionCall
       (S_OK, Some \<lparr>start_unix = 1000, polls = map poll_running [1060, 121001]\<rparr>)
       ''DoSnapshotSet'' 120000 = Some (Some (ErrWaitTimedOut 120000))"
proof -
  let ?h = "\<lparr>start_unix = 1000, polls = map poll_running [1060, 121001]\<rparr>"
  have h: "list_all status_running (polls ?h)"
    by (simp add: poll_running_status)
  have r: "handleAsyncFunctionCall (S_OK, Some ?h) ''DoSnapshotSet'' 120000 =
      Some (Some (ErrWaitTimedOut 120000))"
    unfolding async_step_timeout [OF h, of "''DoSnapshotSet''" 120000]
    by (simp add: poll_running_def)
  from h r show ?thesis by (rule conjI)
qed

section \<open>Properties of path resolution\<close>

lemma TrimPrefix_take: "n \<le> length s \<Longrightarrow> TrimPrefix s (take n s) = drop n s"
  by (simp add: TrimPrefix_def HasPrefix_def min_def)

lemma slice_to_Inr: "slice_to s n = Inr v \<Longrightarrow> n \<le> length s \<and> v = take n s"
  by (simp add: slice_to_def split: if_splits)

lemma snapshotPath_cached:
  assumes "slice_to (normal_form fs path) 2 = Inr v" and "snapshots v = Some S"
  shows "snapshotPath fs create snapshots path =
           Returns ([], Join fs (DeviceObject fs S) (drop 2 (normal_form fs path)), snapshots)"
proof -
  from slice_to_Inr [OF assms(1)] have v: "2 \<le> length (normal_form fs path)"
    "v = take 2 (normal_form fs path)" by simp_all
  then have "TrimPrefix (normal_form fs path) v = drop 2 (normal_form fs path)"
    by (simp add: TrimPrefix_take)
  with assms show ?thesis
    by (simp add: snapshotPath_def normal_form_def Let_def)
qed

lemma snapshotPath_created:
  assumes "slice_to (normal_form fs path) 2 = Inr v" and "snapshots v = None"
    and "create (v @ [backslash]) 120 = Some (S, None)"
  shows "snapshotPath fs create snapshots path =
           Returns ([MsgCreating (v @ [backslash]), CallNewVssSnapshot (v @ [backslash]) 120,
                     MsgVerboseCreated (v @ [backslash])],
                    Join fs (DeviceObject fs S) (drop 2 (normal_form fs path)),
                    snapshots(v \<mapsto> S))"
proof -
  from slice_to_Inr [OF assms(1)] have v: "2 \<le> length (normal_form fs path)"
    "v = take 2 (normal_form fs path)" by simp_all
  then have "TrimPrefix (normal_form fs path) v = drop 2 (normal_form fs path)"
    by (simp add: TrimPrefix_take)
  with assms show ?thesis
    by (simp add: snapshotPath_def normal_form_def Let_def)
qed

lemma snapshotPath_failed:
  assumes "slice_to (normal_form fs path) 2 = Inr v" and "snapshots v = None"
    and "create (v @ [backslash]) 120 = Some (S, Some err)"
  shows "snapshotPath fs create snapshots path =
           Returns ([MsgCreating (v @ [backslash]), CallNewVssSnapshot (v @ [backslash]) 120,
                     MsgErrorCreate v err],
                    path, snapshots)"
  using assms by (simp add: snapshotPath_def normal_form_def Let_def)

lemma snapshotPath_blocks:
  assumes "slice_to (normal_form fs path) 2 = Inr v" and "snapshots v = None"
    and "create (v @ [backslash]) 120 = None"
  shows "snapshotPath fs create snapshots path = Blocks"
  using assms by (simp add: snapshotPath_def normal_form_def Let_def)

lemma snapshotPath_panics:
  assumes "length (normal_form fs path) < 2"
  shows "snapshotPath fs create snapshots path =
           Panics (SliceBoundsOutOfRange 2 (length (normal_form fs path)))"
  using assms by (simp add: snapshotPath_def normal_form_def slice_to_def)

section \<open>Runs on the example environments\<close>

lemma wait_finished [simp]:
  "WaitUntilAsyncFinished \<lparr>start_unix = 1000, polls = [poll_finished 1001]\<rparr> millis = Some None"
  by (simp add: WaitUntilAsyncFinished_def poll_finished_def)

lemma async_ok_call [simp]:
  "handleAsyncFunctionCall (handleAsyncReturnValue async_ok) name millis = Some None"
  by (simp add: handleAsyncFunctionCall_def handleAsyncReturnValue_def async_ok_def
      queryInterface_def)

lemmas run_defs = returns_def blocked_def logged_def fail_def

lemmas async_defs = GatherWriterMetadata_def PrepareForBackup_def DoSnapshotSet_def
  BackupComplete_def

lemma NewVssSnapshot_env_ok:
  "NewVssSnapshot env_ok volume 120 =
     ([CallCreateVssBackupComponents, CallQueryInterface, CallInitializeForBackup,
       CallSetContext VSS_CTX_BACKUP, CallSetBackupState False False VSS_BT_COPY False,
       CallGatherWriterMetadata, CallIsVolumeSupported volume, CallStartSnapshotSet,
       CallAddToSnapshotSet volume 7, CallPrepareForBackup, CallDoSnapshotSet,
       CallGetSnapshotProperties 7],
      Some (snapshot_1, None))"
  by (simp add: NewVssSnapshot_def env_ok_def isRunningOn64BitWindows_def
      loadIVssBackupComponentsConstructor_def findVssProc_def queryInterface_def run_defs
      async_defs snapshot_1_def E_ACCESSDENIED_def S_OK_def)

lemma NewVssSnapshot_env_unsupported:
  "NewVssSnapshot env_unsupported volume 120 =
     ([CallCreateVssBackupComponents, CallQueryInterface, CallInitializeForBackup,
       CallSetContext VSS_CTX_BACKUP, CallSetBackupState False False VSS_BT_COPY False,
       CallGatherWriterMetadata, CallIsVolumeSupported volume],
      Some (VssSnapshot_zero, Some (ErrVolumeNotSupported volume)))"
  by (simp add: NewVssSnapshot_def env_unsupported_def env_ok_def isRunningOn64BitWindows_def
      loadIVssBackupComponentsConstructor_def findVssProc_def queryInterface_def run_defs
      async_defs E_ACCESSDENIED_def S_OK_def)

section \<open>Path resolution: the claims\<close>

lemma normal_form_windows: "normal_form windows_fs p = p"
  by (simp add: normal_form_def windows_fs_def TrimPrefix_def HasPrefix_def)


text \<open>
  C1. For a path whose normal form starts with the volume identifier \<open>v\<close>, when the
  cache holds the snapshot \<open>S\<close> for \<open>v\<close>, or holds none and the creation made by this
  call succeeds with \<open>S\<close>, path resolution returns the join of the device object of \<open>S\<close>
  with the normal form of the path after its volume identifier.
\<close>

theorem snapshotPath_resolves_into_snapshot:
  assumes "slice_to (normal_form fs path) 2 = Inr v"
    and "snapshots v = Some S \<or> (snapshots v = None \<and> create (v @ [backslash]) 120 = Some (S, None))"
  shows "snapshotPath fs create snapshots path =
           Returns
             (if snapshots v = None
              then [MsgCreating (v @ [backslash]), CallNewVssSnapshot (v @ [backslash]) 120,
                    MsgVerboseCreated (v @ [backslash])]
              else [],
              Join fs (DeviceObject fs S) (drop 2 (normal_form fs path)),
              if snapshots v = None then snapshots(v \<mapsto> S) else snapshots)"
  using assms(2)
proof
  assume "snapshots v = Some S"
  with snapshotPath_cached [of fs path v snapshots S create] assms(1) show ?thesis by simp
next
  assume c: "snapshots v = None \<and> create (v @ [backslash]) 120 = Some (S, None)"
  then have "snapshots v = None" "create (v @ [backslash]) 120 = Some (S, None)" by simp_all
  with snapshotPath_created [of fs path v snapshots create S] assms(1) show ?thesis by simp
qed

theorem snapshotPath_resolves_into_snapshot_witness:
  "slice_to (normal_form windows_fs path_file) 2 = Inr ''C:'' \<and>
   [''C:'' \<mapsto> snapshot_1] ''C:'' = Some snapshot_1 \<and>
   snapshotPath windows_fs (create_windows env_unsupported) [''C:'' \<mapsto> snapshot_1] path_file =
     Returns ([],
       long_path_prefix @ ''SnapshotDevice'' @ [backslash] @ ''1'' @ [backslash] @ ''data''
         @ [backslash] @ ''file.txt'',
       [''C:'' \<mapsto> snapshot_1])"
proof -
  have a: "slice_to (normal_form windows_fs path_file) 2 = Inr ''C:''"
    by (simp add: normal_form_windows slice_to_def path_file_def)
  have b: "[''C:'' \<mapsto> snapshot_1] ''C:'' = Some snapshot_1 \<or>
      ([''C:'' \<mapsto> snapshot_1] ''C:'' = None \<and>
       create_windows env_unsupported (''C:'' @ [backslash]) 120 = Some (snapshot_1, None))"
    by simp
  have c: "Join windows_fs (DeviceObject windows_fs snapshot_1)
        (drop 2 (normal_form windows_fs path_file)) =
      long_path_prefix @ ''SnapshotDevice'' @ [backslash] @ ''1'' @ [backslash] @ ''data''
         @ [backslash] @ ''file.txt''"
    unfolding normal_form_windows
    by (simp add: windows_fs_def GetSnapshotDeviceObject_def snapshot_1_def device_1_def
        path_file_def)
  from snapshotPath_resolves_into_snapshot
    [of windows_fs path_file "''C:''" "[''C:'' \<mapsto> snapshot_1]" snapshot_1
      "create_windows env_unsupported"] a b c
  show ?thesis by simp
qed

text \<open>
  C6. For a path on a volume \<open>v\<close> with no snapshot in the cache, when the creation fails,
  path resolution returns the path as it was given (not its normal form), reports the
  error, and leaves the cache as it was; the next access to the volume calls the creation
  again.
\<close>

theorem snapshotPath_falls_back_and_retries:
  assumes "slice_to (normal_form fs path) 2 = Inr v" and "snapshots v = None"
    and "create (v @ [backslash]) 120 = Some (S, Some err)"
    and "slice_to (normal_form fs path') 2 = Inr v"
    and "create' (v @ [backslash]) 120 = Some (S', Some err')"
  shows "snapshotPath fs create snapshots path =
           Returns ([MsgCreating (v @ [backslash]), CallNewVssSnapshot (v @ [backslash]) 120,
                     MsgErrorCreate v err],
                    path, snapshots) \<and>
         snapshotPath fs create' snapshots path' =
           Returns ([MsgCreating (v @ [backslash]), CallNewVssSnapshot (v @ [backslash]) 120,
                     MsgErrorCreate v err'],
                    path', snapshots) \<and>
         resolver_run fs snapshots [OpResolve path create, OpResolve path' create'] =
           Returns ([MsgCreating (v @ [backslash]), CallNewVssSnapshot (v @ [backslash]) 120,
                     MsgErrorCreate v err,
                     MsgCreating (v @ [backslash]), CallNewVssSnapshot (v @ [backslash]) 120,
                     MsgErrorCreate v err'],
                    snapshots)"
  using snapshotPath_failed [of fs path v snapshots create S err]
    snapshotPath_failed [of fs path' v snapshots create' S' err'] assms
  by simp

theorem snapshotPath_falls_back_and_retries_witness:
  "slice_to (normal_form windows_fs path_D) 2 = Inr ''D:'' \<and>
   Map.empty ''D:'' = (None :: VssSnapshot option) \<and>
   create_windows env_unsupported (''D:'' @ [backslash]) 120 =
     Some (VssSnapshot_zero, Some (ErrVolumeNotSupported (''D:'' @ [backslash]))) \<and>
   snapshotPath windows_fs (create_windows env_unsupported) Map.empty path_D =
     Returns ([MsgCreating (''D:'' @ [backslash]), CallNewVssSnapshot (''D:'' @ [backslash]) 120,
               MsgErrorCreate ''D:'' (ErrVolumeNotSupported (''D:'' @ [backslash]))],
              path_D, Map.empty) \<and>
   resolver_run windows_fs Map.empty
       [OpResolve path_D (create_windows env_unsupported),
        OpResolve path_D (create_windows env_unsupported)] =
     Returns ([MsgCreating (''D:'' @ [backslash]), CallNewVssSnapshot (''D:'' @ [backslash]) 120,
               MsgErrorCreate ''D:'' (ErrVolumeNotSupported (''D:'' @ [backslash])),
               MsgCreating (''D:'' @ [backslash]), CallNewVssSnapshot (''D:'' @ [backslash]) 120,
               MsgErrorCreate ''D:'' (ErrVolumeNotSupported (''D:'' @ [backslash]))],
              Map.empty)"
proof -
  have a: "slice_to (normal_form windows_fs path_D) 2 = Inr ''D:''"
    by (simp add: normal_form_windows slice_to_def path_D_def)
  have b: "Map.empty ''D:'' = (None :: VssSnapshot option)" by simp
  have c: "create_windows env_unsupported (''D:'' @ [backslash]) 120 =
     Some (VssSnapshot_zero, Some (ErrVolumeNotSupported (''D:'' @ [backslash])))"
    by (simp add: create_windows_def NewVssSnapshot_env_unsupported)
  from snapshotPath_falls_back_and_retries
    [of windows_fs path_D "''D:''" Map.empty "create_windows env_unsupported" VssSnapshot_zero
      "ErrVolumeNotSupported (''D:'' @ [backslash])" path_D "create_windows env_unsupported"
      VssSnapshot_zero "ErrVolumeNotSupported (''D:'' @ [backslash])"] a b c
  show ?thesis by simp
qed

text \<open>
  C7. The claim: for every path string, the empty string and strings with a normal form
  shorter than two bytes included, path resolution never panics. The code slices
  \<^verbatim>\<open>fixPath[:2]\<close> without looking at the length: where \<^verbatim>\<open>fixpath\<close> returns its argument,
  the four read operations panic on the empty path, and on a path of one byte.
\<close>

theorem read_operations_panic_on_short_path:
  "Open plain_fs fsOpen create snapshots [] = Panics (SliceBoundsOutOfRange 2 0) \<and>
   OpenFile plain_fs fsOpenFile create snapshots [] flag perm = Panics (SliceBoundsOutOfRange 2 0) \<and>
   Stat plain_fs fsStat create snapshots [] = Panics (SliceBoundsOutOfRange 2 0) \<and>
   Lstat plain_fs fsLstat create snapshots [] = Panics (SliceBoundsOutOfRange 2 0) \<and>
   Open plain_fs fsOpen create snapshots ''C'' = Panics (SliceBoundsOutOfRange 2 1)"
proof -
  have n: "normal_form plain_fs [] = []" "normal_form plain_fs ''C'' = ''C''"
    by (simp_all add: normal_form_def plain_fs_def TrimPrefix_def HasPrefix_def
        long_path_prefix_def)
  have "snapshotPath plain_fs create snapshots [] = Panics (SliceBoundsOutOfRange 2 0)"
    using snapshotPath_panics [of plain_fs "[]" create snapshots] n by simp
  moreover have "snapshotPath plain_fs create snapshots ''C'' = Panics (SliceBoundsOutOfRange 2 1)"
    using snapshotPath_panics [of plain_fs "''C''" create snapshots] n by simp
  ultimately show ?thesis
    by (simp add: Open_def OpenFile_def Stat_def Lstat_def read_op_def)
qed

lemma stub_pass_through:
  assumes "slice_to (normal_form fs path) 2 = Inr v" and "snapshots v = None"
  shows "snapshotPath fs create_stub snapshots path =
           Returns ([MsgCreating (v @ [backslash]), CallNewVssSnapshot (v @ [backslash]) 120,
                     MsgErrorCreate v ErrOnlyOnWindows],
                    path, snapshots)"
  using snapshotPath_failed [of fs path v snapshots create_stub "()" ErrOnlyOnWindows] assms
  by (simp add: create_stub_def NewVssSnapshot_stub_def)

text \<open>
  C9. The claim: on the other platforms every creation fails with the one error, and
  every resolved path is the original path. The first half holds for every volume and
  timeout. The second half fails where the normal form of the path is shorter than two
  bytes: there \<^verbatim>\<open>snapshotPath\<close> panics before any creation is tried (the defect of C7).
  The lemma \<open>stub_pass_through\<close> above gives the pass-through for every other path.
\<close>

theorem stub_fails_and_short_path_panics:
  "NewVssSnapshot_stub volume timeoutInSeconds = ((), Some ErrOnlyOnWindows) \<and>
   snapshotPath plain_fs create_stub Map.empty ''x'' = Panics (SliceBoundsOutOfRange 2 1)"
proof -
  have n: "normal_form plain_fs ''x'' = ''x''"
    by (simp add: normal_form_def plain_fs_def TrimPrefix_def HasPrefix_def long_path_prefix_def)
  show ?thesis
    using snapshotPath_panics [of plain_fs "''x''" create_stub Map.empty] n
    by (simp add: NewVssSnapshot_stub_def)
qed

section \<open>The cache over a sequence of operations\<close>

lemma delete_each_events:
  "delete_each delete snapshots keys = Some msgs \<Longrightarrow>
     \<not> list_ex (creates v) msgs \<and> filter (created v) msgs = []"
proof (induction keys arbitrary: msgs)
  case Nil
  then show ?case by simp
next
  case (Cons k ks)
  show ?case
  proof (cases "snapshots k")
    case None
    with Cons show ?thesis by simp
  next
    case (Some snapshot)
    with Cons.prems obtain err msgs' where
      d: "delete snapshot = Some err" "delete_each delete snapshots ks = Some msgs'"
      "msgs = CallDelete k # (case err of Some e \<Rightarrow> [MsgErrorDelete e] | None \<Rightarrow> []) @ msgs'"
      by (auto split: option.splits)
    from Cons.IH [OF d(2)] d(3) show ?thesis
      by (cases err) simp_all
  qed
qed

lemma same_volume: "(vol @ [backslash] = v @ [backslash]) = (vol = v)"
  by simp

lemma snapshotPath_step:
  assumes "snapshotPath fs create snapshots path = Returns (msgs, p, snapshots')"
  shows "(snapshots v \<noteq> None \<longrightarrow>
            snapshots' v = snapshots v \<and> \<not> list_ex (creates v) msgs \<and>
            filter (created v) msgs = []) \<and>
         (snapshots v = None \<longrightarrow>
            length (filter (created v) msgs) \<le> 1 \<and>
            (filter (created v) msgs \<noteq> [] \<longrightarrow> snapshots' v \<noteq> None))"
proof (cases "slice_to (normal_form fs path) 2")
  case (Inl e)
  with assms show ?thesis by (simp add: snapshotPath_def normal_form_def)
next
  case (Inr vol)
  show ?thesis
  proof (cases "snapshots vol")
    case (Some S)
    from snapshotPath_cached [of fs path vol snapshots S create] Inr Some assms
    have "msgs = []" "snapshots' = snapshots" by simp_all
    then show ?thesis by simp
  next
    case None
    show ?thesis
    proof (cases "create (vol @ [backslash]) 120")
      case None
      from snapshotPath_blocks [of fs path vol snapshots create] Inr \<open>snapshots vol = None\<close> None
        assms
      show ?thesis by simp
    next
      case (Some r)
      obtain S e where r: "r = (S, e)" by (cases r)
      show ?thesis
      proof (cases e)
        case None
        from snapshotPath_created [of fs path vol snapshots create S] Inr
          \<open>snapshots vol = None\<close> Some r None assms
        have "msgs = [MsgCreating (vol @ [backslash]), CallNewVssSnapshot (vol @ [backslash]) 120,
                     MsgVerboseCreated (vol @ [backslash])]"
          "snapshots' = snapshots(vol \<mapsto> S)" by simp_all
        with \<open>snapshots vol = None\<close> show ?thesis by auto
      next
        case (Some err)
        from snapshotPath_failed [of fs path vol snapshots create S err] Inr
          \<open>snapshots vol = None\<close> \<open>create (vol @ [backslash]) 120 = Some r\<close> r Some assms
        have "msgs = [MsgCreating (vol @ [backslash]), CallNewVssSnapshot (vol @ [backslash]) 120,
                     MsgErrorCreate vol err]"
          "snapshots' = snapshots" by simp_all
        with \<open>snapshots vol = None\<close> show ?thesis by auto
      qed
    qed
  qed
qed

lemma resolver_step_invariant:
  assumes "resolver_step fs snapshots x = Returns (msgs, snapshots')"
  shows "(snapshots v \<noteq> None \<longrightarrow>
            snapshots' v = snapshots v \<and> \<not> list_ex (creates v) msgs \<and>
            filter (created v) msgs = []) \<and>
         (snapshots v = None \<longrightarrow>
            length (filter (created v) msgs) \<le> 1 \<and>
            (filter (created v) msgs \<noteq> [] \<longrightarrow> snapshots' v \<noteq> None))"
proof (cases x)
  case (OpResolve path create)
  with assms obtain p where "snapshotPath fs create snapshots path = Returns (msgs, p, snapshots')"
    by (auto split: outcome.splits)
  then show ?thesis by (rule snapshotPath_step)
next
  case (OpDeleteSnapshots delete keys)
  with assms have "delete_each delete snapshots keys = Some msgs" "snapshots' = snapshots"
    by (auto simp: DeleteSnapshots_def split: option.splits)
  with delete_each_events [of delete snapshots keys msgs v] show ?thesis by simp
qed

lemma resolver_run_invariant:
  "resolver_run fs snapshots ops = Returns (msgs, snapshots') \<Longrightarrow>
     (snapshots v \<noteq> None \<longrightarrow>
        snapshots' v = snapshots v \<and> \<not> list_ex (creates v) msgs \<and>
        filter (created v) msgs = []) \<and>
     length (filter (created v) msgs) \<le> 1"
proof (induction ops arbitrary: snapshots msgs)
  case Nil
  then show ?case by simp
next
  case (Cons x xs)
  from Cons.prems obtain m1 s1 m2 where
    s: "resolver_step fs snapshots x = Returns (m1, s1)"
    and r: "resolver_run fs s1 xs = Returns (m2, snapshots')"
    and m: "msgs = m1 @ m2"
    by (auto split: outcome.splits)
  note a = resolver_step_invariant [OF s, of v]
  note b = Cons.IH [OF r]
  show ?case
  proof (cases "snapshots v")
    case (Some S)
    with a have "s1 v = Some S" "\<not> list_ex (creates v) m1" "filter (created v) m1 = []"
      by simp_all
    with b m Some show ?thesis by simp
  next
    case None
    show ?thesis
    proof (cases "filter (created v) m1 = []")
      case True
      with b m None show ?thesis by simp
    next
      case False
      with a None have "s1 v \<noteq> None" "length (filter (created v) m1) \<le> 1" by simp_all
      with b m None show ?thesis by simp
    qed
  qed
qed

lemma Delete_env_ok:
  "Delete env_ok snapshot_1 =
     ([CallVssFreeSnapshotProperties, CallBackupComplete, CallDeleteSnapshots 7, CallRelease 1],
      Some None)"
  by (simp add: Delete_def vssFreeSnapshotProperties_def findVssProc_def env_ok_def run_defs
      async_defs snapshot_1_def S_OK_def)

lemma example_ops_run:
  "resolver_run windows_fs [''C:'' \<mapsto> snapshot_1] example_ops =
     Returns ([MsgCreating (''D:'' @ [backslash]), CallNewVssSnapshot (''D:'' @ [backslash]) 120,
               MsgVerboseCreated (''D:'' @ [backslash]), CallDelete ''C:'', CallDelete ''D:''],
              [''C:'' \<mapsto> snapshot_1, ''D:'' \<mapsto> snapshot_1])"
proof -
  have a: "slice_to (normal_form windows_fs path_file) 2 = Inr ''C:''"
    by (simp add: normal_form_windows slice_to_def path_file_def)
  have b: "slice_to (normal_form windows_fs path_D) 2 = Inr ''D:''"
    by (simp add: normal_form_windows slice_to_def path_D_def)
  have c: "create_windows env_ok (''D:'' @ [backslash]) 120 = Some (snapshot_1, None)"
    by (simp add: create_windows_def NewVssSnapshot_env_ok)
  have 1: "snapshotPath windows_fs (create_windows env_unsupported) [''C:'' \<mapsto> snapshot_1]
      path_file =
      Returns ([], Join windows_fs (DeviceObject windows_fs snapshot_1)
                     (drop 2 (normal_form windows_fs path_file)), [''C:'' \<mapsto> snapshot_1])"
    using snapshotPath_cached [of windows_fs path_file "''C:''" "[''C:'' \<mapsto> snapshot_1]"
        snapshot_1 "create_windows env_unsupported"] a by simp
  have 2: "snapshotPath windows_fs (create_windows env_ok) [''C:'' \<mapsto> snapshot_1] path_D =
      Returns ([MsgCreating (''D:'' @ [backslash]), CallNewVssSnapshot (''D:'' @ [backslash]) 120,
                MsgVerboseCreated (''D:'' @ [backslash])],
               Join windows_fs (DeviceObject windows_fs snapshot_1)
                     (drop 2 (normal_form windows_fs path_D)),
               [''C:'' \<mapsto> snapshot_1, ''D:'' \<mapsto> snapshot_1])"
    using snapshotPath_created [of windows_fs path_D "''D:''" "[''C:'' \<mapsto> snapshot_1]"
        "create_windows env_ok" snapshot_1] b c by simp
  have 3: "snapshotPath windows_fs (create_windows env_unsupported)
      [''C:'' \<mapsto> snapshot_1, ''D:'' \<mapsto> snapshot_1] path_file =
      Returns ([], Join windows_fs (DeviceObject windows_fs snapshot_1)
                     (drop 2 (normal_form windows_fs path_file)),
               [''C:'' \<mapsto> snapshot_1, ''D:'' \<mapsto> snapshot_1])"
    using snapshotPath_cached [of windows_fs path_file "''C:''"
        "[''C:'' \<mapsto> snapshot_1, ''D:'' \<mapsto> snapshot_1]"
        snapshot_1 "create_windows env_unsupported"] a by simp
  show ?thesis
    by (simp add: example_ops_def 1 2 3 DeleteSnapshots_def Delete_env_ok)
qed

text \<open>
  C5. The cache is a map, so it holds at most one snapshot for a volume identifier. Over
  every sequence of path resolutions and \<^verbatim>\<open>DeleteSnapshots\<close> calls that returns: an entry
  that exists for a volume \<open>v\<close> is still the same at the end, no creation is called for
  \<open>v\<close> while it exists, and whatever the cache at the start, at most one creation for
  \<open>v\<close> succeeds in the whole sequence.
\<close>

theorem cache_entry_is_never_replaced:
  assumes "resolver_run fs snapshots ops = Returns (msgs, snapshots')"
  shows "(snapshots v \<noteq> None \<longrightarrow>
            snapshots' v = snapshots v \<and> \<not> list_ex (creates v) msgs \<and>
            filter (created v) msgs = []) \<and>
         length (filter (created v) msgs) \<le> 1"
  using assms by (rule resolver_run_invariant)

theorem cache_entry_is_never_replaced_witness:
  "resolver_run windows_fs [''C:'' \<mapsto> snapshot_1] example_ops =
     Returns ([MsgCreating (''D:'' @ [backslash]), CallNewVssSnapshot (''D:'' @ [backslash]) 120,
               MsgVerboseCreated (''D:'' @ [backslash]), CallDelete ''C:'', CallDelete ''D:''],
              [''C:'' \<mapsto> snapshot_1, ''D:'' \<mapsto> snapshot_1]) \<and>
   [''C:'' \<mapsto> snapshot_1] ''C:'' \<noteq> None \<and>
   [''C:'' \<mapsto> snapshot_1, ''D:'' \<mapsto> snapshot_1] ''C:'' = [''C:'' \<mapsto> snapshot_1] ''C:'' \<and>
   \<not> list_ex (creates ''C:'')
       [MsgCreating (''D:'' @ [backslash]), CallNewVssSnapshot (''D:'' @ [backslash]) 120,
        MsgVerboseCreated (''D:'' @ [backslash]), CallDelete ''C:'', CallDelete ''D:''] \<and>
   length (filter (created ''D:'')
       [MsgCreating (''D:'' @ [backslash]), CallNewVssSnapshot (''D:'' @ [backslash]) 120,
        MsgVerboseCreated (''D:'' @ [backslash]), CallDelete ''C:'', CallDelete ''D:'']) \<le> 1"
proof -
  have h: "[''C:'' \<mapsto> snapshot_1] ''C:'' \<noteq> None" by simp
  from cache_entry_is_never_replaced [OF example_ops_run, of "''C:''"]
    cache_entry_is_never_replaced [OF example_ops_run, of "''D:''"] h example_ops_run
  show ?thesis by simp
qed

end
